theory Spec2Isabelle
  imports Main
begin

section \<open>Strings\<close>

text \<open>
  A JavaScript string is modelled as a \<^typ>\<open>string\<close>: a list of characters, each read as
  one UTF-16 code unit below 256.  Of the line terminators of ECMAScript (LF, CR, U+2028,
  U+2029) the first two exist in this range; of its white space, the characters 9 to 13,
  32 and 160.
\<close>

definition LF :: char where
  "LF = CHR ''\<newline>''"

definition CR :: char where
  "CR = CHR 0x0D"

definition isLineTerminator :: "char \<Rightarrow> bool" where
  "isLineTerminator c = (c = LF \<or> c = CR)"

definition isWhiteSpace :: "char \<Rightarrow> bool" where
  "isWhiteSpace c =
     (let n = (of_char c :: nat) in (9 \<le> n \<and> n \<le> 13) \<or> n = 32 \<or> n = 160)"

definition isDigit :: "char \<Rightarrow> bool" where
  "isDigit c = (let n = (of_char c :: nat) in 48 \<le> n \<and> n \<le> 57)"

text \<open>\<^verbatim>\<open>s.startsWith(p)\<close>\<close>

definition startsWith :: "string \<Rightarrow> string \<Rightarrow> bool" where
  "startsWith s p = (take (length p) s = p)"

text \<open>\<^verbatim>\<open>s.includes(p)\<close>: \<open>p\<close> occurs at some position of \<open>s\<close>.\<close>

fun includesStr :: "string \<Rightarrow> string \<Rightarrow> bool" where
  "includesStr [] p = (p = [])"
| "includesStr (c # s) p = (startsWith (c # s) p \<or> includesStr s p)"

text \<open>\<^verbatim>\<open>s.trim()\<close>\<close>

definition trim :: "string \<Rightarrow> string" where
  "trim s = rev (dropWhile isWhiteSpace (rev (dropWhile isWhiteSpace s)))"

text \<open>\<^verbatim>\<open>s.split('\n')\<close>: never empty; the empty string gives one empty piece.\<close>

fun split_LF :: "string \<Rightarrow> string list" where
  "split_LF [] = [[]]"
| "split_LF (c # s) =
     (if c = LF then [] # split_LF s
      else (case split_LF s of
              [] \<Rightarrow> [[c]]
            | p # ps \<Rightarrow> (c # p) # ps))"

text \<open>
  The decimal rendering of an array length in a template literal (a length is an integer
  below \<open>2 ^ 32\<close>, which a number holds exactly).
\<close>

fun showNat :: "nat \<Rightarrow> string" where
  "showNat n =
     (if n < 10 then [char_of (48 + n)]
      else showNat (n div 10) @ [char_of (48 + n mod 10)])"

declare showNat.simps [simp del]

section \<open>Numbers\<close>

text \<open>
  A JavaScript number is an IEEE double.  The numbers of the parser come from
  \<^verbatim>\<open>parseInt\<close> of decimal digits and from adding 1, so they are non-negative integers
  that a double holds, or \<^verbatim>\<open>Infinity\<close>.  \<open>roundDouble n\<close> is the double nearest to the
  natural number \<open>n\<close>: a double keeps 53 binary digits, so with \<open>bitlen n\<close> digits the
  lowest \<open>bitlen n - 53\<close> are rounded away, to the nearest multiple and to the even one
  of two that are equally near; a result of more than 1024 digits is \<^verbatim>\<open>Infinity\<close>.
  Every \<open>n\<close> up to \<open>2 ^ 53\<close> is its own double.
\<close>

datatype js_number = Num nat | Infinity

fun bitlen :: "nat \<Rightarrow> nat" where
  "bitlen n = (if n = 0 then 0 else Suc (bitlen (n div 2)))"

declare bitlen.simps [simp del]

definition roundDouble :: "nat \<Rightarrow> js_number" where
  "roundDouble n =
     (let u = 2 ^ (bitlen n - 53); q = n div u; r = n mod u;
          m = (if 2 * r < u then q
               else if u < 2 * r then q + 1
               else if even q then q else q + 1)
      in if 1024 < bitlen (m * u) then Infinity else Num (m * u))"

text \<open>\<^verbatim>\<open>x++\<close> on a counter: the double nearest to \<open>x + 1\<close>.\<close>

definition jsInc :: "js_number \<Rightarrow> js_number" where
  "jsInc x = (case x of Num n \<Rightarrow> roundDouble (n + 1) | Infinity \<Rightarrow> Infinity)"

text \<open>
  \<^verbatim>\<open>parseInt(s)\<close> on a string that starts with decimal digits is the double nearest to
  the value of its leading digits (so Node computes it; ECMAScript lets an
  implementation read digits after the twentieth as zeros).  The parser applies it to
  captures of \<^verbatim>\<open>(\d+)\<close> and to \<^verbatim>\<open>'1'\<close> only, so the result \<^verbatim>\<open>NaN\<close> of a string
  without a leading digit does not occur.
\<close>

definition digitValue :: "char \<Rightarrow> nat" where
  "digitValue c = of_char c - 48"

definition decimalValue :: "string \<Rightarrow> nat" where
  "decimalValue ds = foldl (\<lambda>n c. 10 * n + digitValue c) 0 ds"

definition parseInt :: "string \<Rightarrow> js_number" where
  "parseInt s = roundDouble (decimalValue (takeWhile isDigit s))"

section \<open>The data model\<close>

text \<open>
  The line numbers and the header fields of a chunk are numbers of the parser; the
  additions and deletions of a file count the elements of arrays and are exact.
\<close>

datatype line_type = Context | Added | Deleted

record DiffLine =
  type :: line_type
  content :: string
  oldLineNumber :: "js_number option"
  newLineNumber :: "js_number option"

record DiffChunk =
  oldStart :: js_number
  oldLines :: js_number
  newStart :: js_number
  newLines :: js_number
  lines :: "DiffLine list"

datatype file_status = StatusAdded | StatusModified | StatusDeleted | StatusRenamed

record DiffFile =
  filename :: string
  oldFilename :: "string option"
  status :: file_status
  additions :: nat
  deletions :: nat
  chunks :: "DiffChunk list"
  isBinary :: "bool option"
  isImage :: "bool option"

record DiffResponse =
  files :: "DiffFile list"
  commit :: string
  isEmpty :: bool

section \<open>Hunk headers\<close>

text \<open>
  The header pattern is
  \<^verbatim>\<open>/^@@ -(\d+)(?:,(\d+))? \+(\d+)(?:,(\d+))? @@/\<close>.
  Each \<^verbatim>\<open>\d+\<close> is followed in the pattern by a comma or a space, so a match takes every
  digit there is; the optional group is followed by a space, so it is taken exactly when
  a comma and a digit come next.  No backtracking changes the outcome, and the pattern
  is matched by one pass from the left.
\<close>

definition stripPrefix :: "string \<Rightarrow> string \<Rightarrow> string option" where
  "stripPrefix p s = (if startsWith s p then Some (drop (length p) s) else None)"

definition digits1 :: "string \<Rightarrow> (string \<times> string) option" where
  "digits1 s =
     (if takeWhile isDigit s = [] then None
      else Some (takeWhile isDigit s, dropWhile isDigit s))"

definition optCount :: "string \<Rightarrow> string option \<times> string" where
  "optCount s =
     (case stripPrefix '','' s of
        None \<Rightarrow> (None, s)
      | Some r \<Rightarrow>
          (case digits1 r of
             None \<Rightarrow> (None, s)
           | Some (d, r') \<Rightarrow> (Some d, r')))"

definition matchHunkHeader ::
  "string \<Rightarrow> (string \<times> string option \<times> string \<times> string option) option" where
  "matchHunkHeader line =
     (case stripPrefix ''@@ -'' line of
        None \<Rightarrow> None
      | Some r1 \<Rightarrow>
     (case digits1 r1 of
        None \<Rightarrow> None
      | Some (m1, r2) \<Rightarrow>
     (case optCount r2 of (m2, r3) \<Rightarrow>
     (case stripPrefix '' +'' r3 of
        None \<Rightarrow> None
      | Some r4 \<Rightarrow>
     (case digits1 r4 of
        None \<Rightarrow> None
      | Some (m3, r5) \<Rightarrow>
     (case optCount r5 of (m4, r6) \<Rightarrow>
     (case stripPrefix '' @@'' r6 of
        None \<Rightarrow> None
      | Some r7 \<Rightarrow> Some (m1, m2, m3, m4))))))))"

text \<open>\<^verbatim>\<open>match[i] || '1'\<close>: an absent or empty capture gives \<^verbatim>\<open>'1'\<close>.\<close>

definition orOne :: "string option \<Rightarrow> string" where
  "orOne m = (case m of None \<Rightarrow> ''1'' | Some s \<Rightarrow> (if s = [] then ''1'' else s))"

section \<open>parseChunks\<close>

text \<open>
  The loop of \<^verbatim>\<open>parseChunks\<close> carries \<^verbatim>\<open>chunks\<close>, \<^verbatim>\<open>currentChunk\<close>,
  \<^verbatim>\<open>oldLineNumber\<close> and \<^verbatim>\<open>newLineNumber\<close>; \<open>chunkStep\<close> is one iteration of it.
\<close>

type_synonym chunk_state = "DiffChunk list \<times> DiffChunk option \<times> js_number \<times> js_number"

definition pushCurrent :: "DiffChunk list \<Rightarrow> DiffChunk option \<Rightarrow> DiffChunk list" where
  "pushCurrent cs cur = (case cur of None \<Rightarrow> cs | Some c \<Rightarrow> cs @ [c])"

definition isContentLine :: "string \<Rightarrow> bool" where
  "isContentLine line =
     (startsWith line '' '' \<or> startsWith line ''+'' \<or> startsWith line ''-'')"

definition lineType :: "string \<Rightarrow> line_type" where
  "lineType line =
     (if startsWith line ''+'' then Added
      else if startsWith line ''-'' then Deleted
      else Context)"

definition mkDiffLine :: "string \<Rightarrow> js_number \<Rightarrow> js_number \<Rightarrow> DiffLine" where
  "mkDiffLine line oldNo newNo =
     \<lparr>type = lineType line,
      content = drop 1 line,
      oldLineNumber = (if lineType line \<noteq> Added then Some oldNo else None),
      newLineNumber = (if lineType line \<noteq> Deleted then Some newNo else None)\<rparr>"

fun chunkStep :: "chunk_state \<Rightarrow> string \<Rightarrow> chunk_state" where
  "chunkStep (cs, cur, oldNo, newNo) line =
     (if startsWith line ''@@'' then
        (case matchHunkHeader line of
           None \<Rightarrow> (cs, cur, oldNo, newNo)
         | Some (m1, m2, m3, m4) \<Rightarrow>
             (pushCurrent cs cur,
              Some \<lparr>oldStart = parseInt m1, oldLines = parseInt (orOne m2),
                    newStart = parseInt m3, newLines = parseInt (orOne m4),
                    lines = []\<rparr>,
              parseInt m1, parseInt m3))
      else
        (case cur of
           None \<Rightarrow> (cs, cur, oldNo, newNo)
         | Some c \<Rightarrow>
             if isContentLine line then
               (cs,
                Some (c\<lparr>lines := lines c @ [mkDiffLine line oldNo newNo]\<rparr>),
                (if lineType line \<noteq> Added then jsInc oldNo else oldNo),
                (if lineType line \<noteq> Deleted then jsInc newNo else newNo))
             else (cs, cur, oldNo, newNo)))"

definition parseChunks :: "string list \<Rightarrow> DiffChunk list" where
  "parseChunks ls =
     (case foldl chunkStep ([], None, Num 0, Num 0) ls of
        (cs, cur, oldNo, newNo) \<Rightarrow> pushCurrent cs cur)"

section \<open>parseFileBlock\<close>

text \<open>
  Thrown values: an instance of \<^verbatim>\<open>Error\<close> with its message, or anything else.
\<close>

datatype js_error = Error string | NotAnError

text \<open>
  The file header pattern is \<^verbatim>\<open>/^a\/(.+) b\/(.+)$/\<close>, without the multiline flag: the
  line starts with \<^verbatim>\<open>a/\<close>, no character after that is a line terminator (the dot
  refuses them), and the first group is greedy, so the separator \<^verbatim>\<open> b/\<close> is the last
  one that leaves both groups non-empty.  \<open>findSep r i\<close> tries the lengths \<open>i\<close>,
  \<open>i - 1\<close>, ..., \<open>1\<close> of the first group in that order.
\<close>

fun findSep :: "string \<Rightarrow> nat \<Rightarrow> (string \<times> string) option" where
  "findSep r 0 = None"
| "findSep r (Suc i) =
     (if startsWith (drop (Suc i) r) '' b/'' \<and> drop (Suc i + 3) r \<noteq> []
      then Some (take (Suc i) r, drop (Suc i + 3) r)
      else findSep r i)"

definition fileMatch :: "string \<Rightarrow> (string \<times> string) option" where
  "fileMatch firstLine =
     (case stripPrefix ''a/'' firstLine of
        None \<Rightarrow> None
      | Some r \<Rightarrow> if list_ex isLineTerminator r then None else findSep r (length r))"

text \<open>
  \<^verbatim>\<open>if (m)\<close> on the result of \<^verbatim>\<open>lines.find(...)\<close>: a found, non-empty string.
\<close>

definition truthy :: "string option \<Rightarrow> bool" where
  "truthy m = (case m of None \<Rightarrow> False | Some s \<Rightarrow> s \<noteq> [])"

text \<open>\<^verbatim>\<open>toLowerCase\<close> on code units below 256, \<^verbatim>\<open>lastIndexOf\<close> and \<^verbatim>\<open>substring\<close>.\<close>

definition lowerChar :: "char \<Rightarrow> char" where
  "lowerChar c =
     (let n = (of_char c :: nat)
      in if (65 \<le> n \<and> n \<le> 90) \<or> (192 \<le> n \<and> n \<le> 222 \<and> n \<noteq> 215)
         then char_of (n + 32) else c)"

definition toLowerCase :: "string \<Rightarrow> string" where
  "toLowerCase s = map lowerChar s"

fun lastIndexOf :: "string \<Rightarrow> char \<Rightarrow> int" where
  "lastIndexOf [] d = -1"
| "lastIndexOf (c # s) d =
     (let i = lastIndexOf s d
      in if 0 \<le> i then i + 1 else if c = d then 0 else -1)"

definition substring :: "string \<Rightarrow> int \<Rightarrow> string" where
  "substring s i = drop (nat (max 0 i)) s"

definition isImageFile :: "string \<Rightarrow> bool" where
  "isImageFile fname =
     (let imageExtensions =
            [''.png'', ''.jpg'', ''.jpeg'', ''.gif'', ''.bmp'', ''.svg'', ''.webp''];
          ext = substring (toLowerCase fname) (lastIndexOf fname (CHR ''.''))
      in ext \<in> set imageExtensions)"

definition countType :: "line_type \<Rightarrow> DiffChunk list \<Rightarrow> nat" where
  "countType t cs = length (filter (\<lambda>l. type l = t) (concat (map lines cs)))"

text \<open>
  \<^verbatim>\<open>lines[0]\<close> of an empty array is \<^verbatim>\<open>undefined\<close>, and \<^verbatim>\<open>undefined.match\<close> throws a
  \<^verbatim>\<open>TypeError\<close>; the model keeps that branch behind the source's length check.
\<close>

definition parseFileBlock :: "string list \<Rightarrow> js_error + DiffFile option" where
  "parseFileBlock ls =
     (if length ls = 0 then Inr None
      else
        (case ls of
           [] \<Rightarrow> Inl (Error ''Cannot read properties of undefined'')
         | firstLine # _ \<Rightarrow>
        (case fileMatch firstLine of
           None \<Rightarrow> Inr None
         | Some (oldName, newName) \<Rightarrow>
             let newFileMatch = find (\<lambda>line. startsWith line ''new file mode'') ls;
                 deletedFileMatch = find (\<lambda>line. startsWith line ''deleted file mode'') ls;
                 renameMatch = find (\<lambda>line. startsWith line ''rename from'') ls;
                 binaryMatch = find (\<lambda>line. includesStr line ''Binary files'') ls;
                 (st, fname) =
                   (if truthy newFileMatch then (StatusAdded, newName)
                    else if truthy deletedFileMatch then (StatusDeleted, oldName)
                    else if truthy renameMatch then (StatusRenamed, newName)
                    else (StatusModified, newName))
             in if truthy binaryMatch then
                  Inr (Some \<lparr>filename = fname,
                             oldFilename = (if st = StatusRenamed then Some oldName else None),
                             status = st, additions = 0, deletions = 0, chunks = [],
                             isBinary = Some True, isImage = Some (isImageFile fname)\<rparr>)
                else
                  let cs = parseChunks ls
                  in Inr (Some \<lparr>filename = fname,
                                oldFilename = (if st = StatusRenamed then Some oldName else None),
                                status = st,
                                additions = countType Added cs,
                                deletions = countType Deleted cs,
                                chunks = cs,
                                isBinary = None, isImage = None\<rparr>))))"

section \<open>parseDiffOutput\<close>

text \<open>
  \<^verbatim>\<open>diffText.split(/^diff --git /m)\<close>: with the multiline flag the caret matches at the
  start of the text and after every line terminator, CR included.  The scan keeps whether
  the position is at such a place and the piece read so far (reversed); after a match the
  previous character is the separator's final space.
\<close>

fun splitDiffGit :: "bool \<Rightarrow> string \<Rightarrow> string \<Rightarrow> string list" where
  "splitDiffGit atStart acc [] = [rev acc]"
| "splitDiffGit atStart acc (c # s) =
     (if atStart \<and> startsWith (c # s) ''diff --git ''
      then rev acc # splitDiffGit False [] (drop 10 s)
      else splitDiffGit (isLineTerminator c) (c # acc) s)"

fun parseBlocks :: "string list \<Rightarrow> DiffFile list \<Rightarrow> js_error + DiffFile list" where
  "parseBlocks [] fs = Inr fs"
| "parseBlocks (block # rest) fs =
     (case parseFileBlock (split_LF block) of
        Inl e \<Rightarrow> Inl e
      | Inr None \<Rightarrow> parseBlocks rest fs
      | Inr (Some fileDiff) \<Rightarrow> parseBlocks rest (fs @ [fileDiff]))"

definition parseDiffOutput :: "string \<Rightarrow> js_error + DiffFile list" where
  "parseDiffOutput diffText =
     (let fileBlocks = filter (\<lambda>block. trim block \<noteq> []) (splitDiffGit True [] diffText)
      in parseBlocks fileBlocks [])"

section \<open>Argument validation\<close>

record ValidationResult =
  valid :: bool
  error :: "string option"

text \<open>
  \<^verbatim>\<open>validateDiffArguments(target, compareWith?)\<close>; an absent second argument is \<open>None\<close>.
\<close>

definition validateDiffArguments :: "string \<Rightarrow> string option \<Rightarrow> ValidationResult" where
  "validateDiffArguments target compareWith =
     (let specialArgs = [''working'', ''staged'', ''.'']
      in if target \<in> set specialArgs then \<lparr>valid = True, error = None\<rparr>
         else if target = [] \<or> trim target = []
           then \<lparr>valid = False, error = Some ''Target commit cannot be empty''\<rparr>
         else
           (case compareWith of
              None \<Rightarrow> \<lparr>valid = True, error = None\<rparr>
            | Some c \<Rightarrow>
                if c = [] \<or> trim c = []
                then \<lparr>valid = False, error = Some ''Compare-with commit cannot be empty''\<rparr>
                else \<lparr>valid = True, error = None\<rparr>))"

definition shortHash :: "string \<Rightarrow> string" where
  "shortHash hash = take 7 hash"

definition createCommitRangeString :: "string \<Rightarrow> string \<Rightarrow> string" where
  "createCommitRangeString target base =
     (if target = ''working'' then ''Working Directory (unstaged changes)''
      else if target = ''staged'' then shortHash base @ '' vs Staging Area (staged changes)''
      else if target = ''.''
        then shortHash base @ '' vs Working Directory (all uncommitted changes)''
      else shortHash base @ ''..'' @ shortHash target)"

section \<open>The repository and the file system\<close>

text \<open>
  What \<^verbatim>\<open>parseDiff\<close> asks of its collaborators is a parameter of the model: each call
  of simple-git or of \<^verbatim>\<open>fs\<close> either returns a value or throws.  A computation returns the
  calls it made, in order, next to its outcome.
\<close>

record FileStatusResult =
  path :: string

record StatusResult =
  status_files :: "FileStatusResult list"
  not_added :: "string list"

record world =
  git_revparse :: "string list \<Rightarrow> js_error + string"
  git_raw :: "string list \<Rightarrow> js_error + string"
  git_status :: "js_error + StatusResult"
  path_resolve :: "string \<Rightarrow> string"
  fs_stat_isFile :: "string \<Rightarrow> js_error + bool"
  fs_readFile :: "string \<Rightarrow> js_error + string"

datatype io_event =
    RevParse "string list"
  | GitRaw "string list"
  | GitStatus
  | FsStat string
  | FsReadFile string
  | ConsoleWarn string

type_synonym 'a io = "io_event list \<times> (js_error + 'a)"

definition io_return :: "'a \<Rightarrow> 'a io" where
  "io_return x = ([], Inr x)"

definition io_throw :: "js_error \<Rightarrow> 'a io" where
  "io_throw e = ([], Inl e)"

definition io_call :: "io_event \<Rightarrow> js_error + 'a \<Rightarrow> 'a io" where
  "io_call ev r = ([ev], r)"

definition io_bind :: "'a io \<Rightarrow> ('a \<Rightarrow> 'b io) \<Rightarrow> 'b io" where
  "io_bind m f =
     (case m of
        (t, Inl e) \<Rightarrow> (t, Inl e)
      | (t, Inr x) \<Rightarrow> (case f x of (t', r) \<Rightarrow> (t @ t', r)))"

definition io_catch :: "'a io \<Rightarrow> (js_error \<Rightarrow> 'a io) \<Rightarrow> 'a io" where
  "io_catch m h =
     (case m of
        (t, Inl e) \<Rightarrow> (case h e of (t', r) \<Rightarrow> (t @ t', r))
      | (t, Inr x) \<Rightarrow> (t, Inr x))"

section \<open>The synthetic diff\<close>

definition generateDummyHash :: string where
  "generateDummyHash = replicate 7 (CHR ''f'')"

text \<open>One iteration of the loop of \<^verbatim>\<open>createSyntheticDiffForAllFiles\<close>.\<close>

definition syntheticBlock :: "string \<Rightarrow> string \<Rightarrow> string" where
  "syntheticBlock fname fileContent =
     (let ls = split_LF fileContent
      in ''diff --git a/'' @ fname @ '' b/'' @ fname @ [LF]
         @ ''new file mode 100644'' @ [LF]
         @ ''index 0000000..'' @ generateDummyHash @ [LF]
         @ ''--- /dev/null'' @ [LF]
         @ ''+++ b/'' @ fname @ [LF]
         @ ''@@ -0,0 +1,'' @ showNat (length ls) @ '' @@'' @ [LF]
         @ concat (map (\<lambda>line. ''+'' @ line @ [LF]) ls))"

definition syntheticStep :: "world \<Rightarrow> string \<Rightarrow> string \<Rightarrow> string io" where
  "syntheticStep w syntheticDiff fname =
     io_catch
       (let filePath = path_resolve w fname
        in io_bind (io_call (FsStat filePath) (fs_stat_isFile w filePath)) (\<lambda>isFile.
           if isFile then
             io_bind (io_call (FsReadFile filePath) (fs_readFile w filePath)) (\<lambda>fileContent.
             io_return (syntheticDiff @ syntheticBlock fname fileContent))
           else io_return syntheticDiff))
       (\<lambda>err. io_bind (io_call (ConsoleWarn fname) (Inr ())) (\<lambda>u. io_return syntheticDiff))"

fun syntheticLoop :: "world \<Rightarrow> string list \<Rightarrow> string \<Rightarrow> string io" where
  "syntheticLoop w [] syntheticDiff = io_return syntheticDiff"
| "syntheticLoop w (fname # rest) syntheticDiff =
     (case syntheticStep w syntheticDiff fname of
        (t, Inl e) \<Rightarrow> (t, Inl e)
      | (t, Inr d) \<Rightarrow> (case syntheticLoop w rest d of (t', r) \<Rightarrow> (t @ t', r)))"

definition createSyntheticDiffForAllFiles :: "world \<Rightarrow> string list \<Rightarrow> string io" where
  "createSyntheticDiffForAllFiles w fnames = syntheticLoop w fnames []"

section \<open>parseDiff\<close>

definition resolveTarget :: "world \<Rightarrow> string \<Rightarrow> string \<Rightarrow> (string \<times> string list) io" where
  "resolveTarget w targetCommitish baseCommitish =
     (if targetCommitish = ''working'' then
        io_return (''Working Directory (unstaged changes)'', [])
      else if targetCommitish = ''staged'' then
        io_bind (io_call (RevParse [baseCommitish]) (git_revparse w [baseCommitish]))
          (\<lambda>baseHash.
        io_return (shortHash baseHash @ '' vs Staging Area (staged changes)'',
                   [''--cached'', baseCommitish]))
      else if targetCommitish = ''.'' then
        io_catch
          (io_bind (io_call (RevParse [baseCommitish]) (git_revparse w [baseCommitish]))
             (\<lambda>baseHash.
           io_return (shortHash baseHash @ '' vs Working Directory (all uncommitted changes)'',
                      [baseCommitish])))
          (\<lambda>err. io_return (''Working Directory (all files)'', [''--no-index'', ''/dev/null'']))
      else
        io_bind (io_call (RevParse [targetCommitish]) (git_revparse w [targetCommitish]))
          (\<lambda>targetHash.
        io_bind (io_call (RevParse [baseCommitish]) (git_revparse w [baseCommitish]))
          (\<lambda>baseHash.
        io_return (createCommitRangeString targetHash baseHash,
                   [baseCommitish, targetCommitish]))))"

definition getRawDiff :: "world \<Rightarrow> string list \<Rightarrow> string io" where
  "getRawDiff w diffArgs =
     (if length diffArgs = 0 then
        io_call (GitRaw [''diff'', ''--unified=3'']) (git_raw w [''diff'', ''--unified=3''])
      else if ''--no-index'' \<in> set diffArgs then
        io_bind (io_call GitStatus (git_status w)) (\<lambda>st.
        let allFiles = map path (status_files st) @ not_added st
        in if length allFiles = 0 then io_return []
           else createSyntheticDiffForAllFiles w allFiles)
      else
        io_call (GitRaw ([''diff'', ''--unified=3''] @ diffArgs))
                (git_raw w ([''diff'', ''--unified=3''] @ diffArgs)))"

definition errorMessage :: "js_error \<Rightarrow> string" where
  "errorMessage e = (case e of Error m \<Rightarrow> m | NotAnError \<Rightarrow> ''Unknown error'')"

definition parseDiff :: "world \<Rightarrow> string \<Rightarrow> string \<Rightarrow> bool \<Rightarrow> DiffResponse io" where
  "parseDiff w targetCommitish baseCommitish ignoreWhitespace =
     io_catch
       (let validation = validateDiffArguments targetCommitish (Some baseCommitish)
        in if \<not> valid validation
           then io_throw (Error (case error validation of None \<Rightarrow> [] | Some m \<Rightarrow> m))
           else
             io_bind (resolveTarget w targetCommitish baseCommitish)
               (\<lambda>(resolvedCommit, diffArgs0).
             let diffArgs = (if ignoreWhitespace then diffArgs0 @ [''--ignore-all-space'']
                             else diffArgs0)
             in io_bind (getRawDiff w diffArgs) (\<lambda>rawDiff.
                io_bind ([], parseDiffOutput rawDiff) (\<lambda>fs.
                io_return \<lparr>files = fs, commit = resolvedCommit,
                           isEmpty = (length fs = 0)\<rparr>))))
       (\<lambda>err. io_throw (Error (''Failed to parse diff: '' @ errorMessage err)))"

section \<open>The numbering rule and the line counts, as specified\<close>







text \<open>
  The hunks of a block as the text has them: every line that the header pattern matches,
  with the lines that follow it up to the next such line.
\<close>

definition isHunkHeader :: "string \<Rightarrow> bool" where
  "isHunkHeader line = (startsWith line ''@@'' \<and> matchHunkHeader line \<noteq> None)"

fun hunks :: "string list \<Rightarrow> (string \<times> string list) list" where
  "hunks [] = []"
| "hunks (l # ls) =
     (if isHunkHeader l then (l, takeWhile (\<lambda>x. \<not> isHunkHeader x) ls) # hunks ls
      else hunks ls)"

text \<open>
  The two line counts of a chunk, the same counts on the lines of the text, and the counts
  that a header declares.
\<close>

definition oldSideCount :: "DiffLine list \<Rightarrow> nat" where
  "oldSideCount dls = length (filter (\<lambda>l. type l = Context \<or> type l = Deleted) dls)"

definition newSideCount :: "DiffLine list \<Rightarrow> nat" where
  "newSideCount dls = length (filter (\<lambda>l. type l = Context \<or> type l = Added) dls)"

definition chunkCountsAgree :: "DiffChunk \<Rightarrow> bool" where
  "chunkCountsAgree c =
     (Num (oldSideCount (lines c)) = oldLines c \<and> Num (newSideCount (lines c)) = newLines c)"

definition oldSideText :: "string list \<Rightarrow> nat" where
  "oldSideText body =
     length (filter (\<lambda>s. startsWith s '' '' \<or> startsWith s ''-'') body)"

definition newSideText :: "string list \<Rightarrow> nat" where
  "newSideText body =
     length (filter (\<lambda>s. startsWith s '' '' \<or> startsWith s ''+'') body)"

definition declaredCounts :: "string \<Rightarrow> js_number \<times> js_number" where
  "declaredCounts hdr =
     (case matchHunkHeader hdr of
        None \<Rightarrow> (Num 0, Num 0)
      | Some (m1, m2, m3, m4) \<Rightarrow> (parseInt (orOne m2), parseInt (orOne m4)))"

definition hunkWellFormed :: "string \<times> string list \<Rightarrow> bool" where
  "hunkWellFormed h =
     (declaredCounts (fst h) = (Num (oldSideText (snd h)), Num (newSideText (snd h))))"



text \<open>Declared and actual counts, of a chunk and of a hunk of the text, side by side.\<close>

definition chunkSummary :: "DiffChunk \<Rightarrow> (js_number \<times> js_number) \<times> (nat \<times> nat)" where
  "chunkSummary c =
     ((oldLines c, newLines c), (oldSideCount (lines c), newSideCount (lines c)))"

definition hunkSummary ::
  "string \<times> string list \<Rightarrow> (js_number \<times> js_number) \<times> (nat \<times> nat)" where
  "hunkSummary h = (declaredCounts (fst h), (oldSideText (snd h), newSideText (snd h)))"

definition finishChunks :: "chunk_state \<Rightarrow> DiffChunk list" where
  "finishChunks s = (case s of (cs, cur, oldNo, newNo) \<Rightarrow> pushCurrent cs cur)"

definition addBody ::
  "DiffChunk \<Rightarrow> string list \<Rightarrow> (js_number \<times> js_number) \<times> (nat \<times> nat)" where
  "addBody c body =
     ((oldLines c, newLines c),
      (oldSideCount (lines c) + oldSideText body, newSideCount (lines c) + newSideText body))"

text \<open>The markers of a block: some line starts with, or contains, the marker text.\<close>

definition newFileMarker :: "string list \<Rightarrow> bool" where
  "newFileMarker ls = list_ex (\<lambda>line. startsWith line ''new file mode'') ls"

definition deletedFileMarker :: "string list \<Rightarrow> bool" where
  "deletedFileMarker ls = list_ex (\<lambda>line. startsWith line ''deleted file mode'') ls"

definition renameMarker :: "string list \<Rightarrow> bool" where
  "renameMarker ls = list_ex (\<lambda>line. startsWith line ''rename from'') ls"

definition binaryMarker :: "string list \<Rightarrow> bool" where
  "binaryMarker ls = list_ex (\<lambda>line. includesStr line ''Binary files'') ls"

definition blockStatus :: "string list \<Rightarrow> file_status" where
  "blockStatus ls =
     (if newFileMarker ls then StatusAdded
      else if deletedFileMarker ls then StatusDeleted
      else if renameMarker ls then StatusRenamed
      else StatusModified)"

text \<open>The text of a hunk header, from its numbers and its optional counts.\<close>

definition digitString :: "string \<Rightarrow> bool" where
  "digitString s = (s \<noteq> [] \<and> list_all isDigit s)"

definition renderCount :: "string option \<Rightarrow> string" where
  "renderCount m = (case m of None \<Rightarrow> [] | Some n \<Rightarrow> '','' @ n)"

definition renderHeader :: "string \<Rightarrow> string option \<Rightarrow> string \<Rightarrow> string option \<Rightarrow> string \<Rightarrow> string" where
  "renderHeader a oc b nc tail =
     ''@@ -'' @ a @ renderCount oc @ '' +'' @ b @ renderCount nc @ '' @@'' @ tail"

definition countOrOne :: "string option \<Rightarrow> js_number" where
  "countOrOne m = (case m of None \<Rightarrow> Num 1 | Some n \<Rightarrow> parseInt n)"

text \<open>
  The synthetic text in one expression: the blocks of the files that are regular files
  and can be read, in the order of the list.
\<close>

definition readableContent :: "world \<Rightarrow> string \<Rightarrow> string option" where
  "readableContent w fname =
     (case fs_stat_isFile w (path_resolve w fname) of
        Inl e \<Rightarrow> None
      | Inr isFile \<Rightarrow>
          if isFile then
            (case fs_readFile w (path_resolve w fname) of
               Inl e \<Rightarrow> None
             | Inr fileContent \<Rightarrow> Some fileContent)
          else None)"

definition syntheticText :: "world \<Rightarrow> string list \<Rightarrow> string" where
  "syntheticText w fnames =
     concat (map (\<lambda>fname. case readableContent w fname of
                              None \<Rightarrow> []
                            | Some fileContent \<Rightarrow> syntheticBlock fname fileContent) fnames)"

text \<open>
  The marker of a binary file as the specification names it: a line with \<open>Binary files\<close>
  and, after that, \<open>differ\<close>.
\<close>

fun includesThen :: "string \<Rightarrow> string \<Rightarrow> string \<Rightarrow> bool" where
  "includesThen [] p q = (p = [] \<and> q = [])"
| "includesThen (c # s) p q =
     ((startsWith (c # s) p \<and> includesStr (drop (length p) (c # s)) q) \<or> includesThen s p q)"

definition binaryFilesDiffer :: "string list \<Rightarrow> bool" where
  "binaryFilesDiffer ls = list_ex (\<lambda>line. includesThen line ''Binary files'' ''differ'') ls"

text \<open>
  Environments for the examples: a repository with history and nothing to report; a
  directory that is no repository; a repository without commits where three files are
  staged, two of them readable and one gone from the disk; and one whose only staged
  file holds a carriage return followed by the text of a file header.
\<close>

definition quietWorld :: world where
  "quietWorld =
     \<lparr>git_revparse = (\<lambda>args. Inr ''0123456789abcdef''),
      git_raw = (\<lambda>args. Inr []),
      git_status = Inr \<lparr>status_files = [], not_added = []\<rparr>,
      path_resolve = (\<lambda>p. p),
      fs_stat_isFile = (\<lambda>p. Inl (Error ''ENOENT'')),
      fs_readFile = (\<lambda>p. Inl (Error ''ENOENT''))\<rparr>"

definition noRepoWorld :: world where
  "noRepoWorld =
     \<lparr>git_revparse = (\<lambda>args. Inl (Error ''not a git repository'')),
      git_raw = (\<lambda>args. Inl (Error ''not a git repository'')),
      git_status = Inl (Error ''not a git repository''),
      path_resolve = (\<lambda>p. p),
      fs_stat_isFile = (\<lambda>p. Inl (Error ''ENOENT'')),
      fs_readFile = (\<lambda>p. Inl (Error ''ENOENT''))\<rparr>"

definition noHistoryWorld :: world where
  "noHistoryWorld =
     \<lparr>git_revparse = (\<lambda>args. Inl (Error ''unknown revision'')),
      git_raw = (\<lambda>args. Inr []),
      git_status =
        Inr \<lparr>status_files = [\<lparr>path = ''a.txt''\<rparr>, \<lparr>path = ''gone.txt''\<rparr>, \<lparr>path = ''b.txt''\<rparr>],
             not_added = []\<rparr>,
      path_resolve = (\<lambda>p. ''/repo/'' @ p),
      fs_stat_isFile =
        (\<lambda>p. if p = ''/repo/a.txt'' \<or> p = ''/repo/b.txt'' then Inr True
             else Inl (Error ''ENOENT'')),
      fs_readFile =
        (\<lambda>p. if p = ''/repo/a.txt'' then Inr ''one''
             else if p = ''/repo/b.txt'' then Inr ''two''
             else Inl (Error ''ENOENT''))\<rparr>"

definition crWorld :: world where
  "crWorld =
     \<lparr>git_revparse = (\<lambda>args. Inl (Error ''unknown revision'')),
      git_raw = (\<lambda>args. Inr []),
      git_status = Inr \<lparr>status_files = [\<lparr>path = ''f''\<rparr>], not_added = []\<rparr>,
      path_resolve = (\<lambda>p. ''/repo/'' @ p),
      fs_stat_isFile = (\<lambda>p. if p = ''/repo/f'' then Inr True else Inl (Error ''ENOENT'')),
      fs_readFile =
        (\<lambda>p. if p = ''/repo/f'' then Inr (''x'' @ [CR] @ ''diff --git a/e b/e'')
             else Inl (Error ''ENOENT''))\<rparr>"

section \<open>Properties of parseChunks\<close>

lemma bitlen_numeral [simp]:
  "bitlen 0 = 0" "bitlen (Suc 0) = Suc 0" "bitlen 1 = 1"
  "bitlen (numeral k) = Suc (bitlen (numeral k div 2))"
  by (simp_all add: bitlen.simps [of 0] bitlen.simps [of 1] bitlen.simps [of "Suc 0"]
      bitlen.simps [of "numeral k"])

lemma bitlen_le: "n < 2 ^ k \<Longrightarrow> bitlen n \<le> k"
proof (induction k arbitrary: n)
  case 0
  then show ?case by (simp add: bitlen.simps [of n])
next
  case (Suc k)
  then have "n div 2 < 2 ^ k" by simp
  from Suc.IH [OF this] show ?case by (simp add: bitlen.simps [of n])
qed

lemma roundDouble_exact: "n < 2 ^ 53 \<Longrightarrow> roundDouble n = Num n"
proof -
  assume "n < 2 ^ 53"
  then have "bitlen n \<le> 53" by (rule bitlen_le)
  then show ?thesis by (simp add: roundDouble_def)
qed









lemma startsWith_one: "startsWith s [c] = (s \<noteq> [] \<and> hd s = c)"
  by (cases s) (simp_all add: startsWith_def)

lemma not_content_if_at: "startsWith s ''@@'' \<Longrightarrow> \<not> startsWith s '' '' \<and> \<not> startsWith s ''+'' \<and> \<not> startsWith s ''-''"
  by (cases s) (auto simp: startsWith_def)

lemma lineType_cases:
  "lineType s = Added \<longleftrightarrow> startsWith s ''+''"
  "lineType s = Deleted \<longleftrightarrow> startsWith s ''-''"
  "lineType s = Context \<longleftrightarrow> \<not> startsWith s ''+'' \<and> \<not> startsWith s ''-''"
  by (auto simp: lineType_def startsWith_one)

lemma summary_foldl:
  "map chunkSummary (finishChunks (foldl chunkStep (cs, cur, a, b) ls)) =
     map chunkSummary cs
     @ (case cur of None \<Rightarrow> [] | Some c \<Rightarrow> [addBody c (takeWhile (\<lambda>x. \<not> isHunkHeader x) ls)])
     @ map hunkSummary (hunks ls)"
proof (induction ls arbitrary: cs cur a b)
  case Nil
  show ?case
    by (cases cur)
      (simp_all add: finishChunks_def pushCurrent_def addBody_def chunkSummary_def
        oldSideText_def newSideText_def)
next
  case (Cons l ls)
  show ?case
  proof (cases "isHunkHeader l")
    case True
    then obtain m1 m2 m3 m4 where m: "matchHunkHeader l = Some (m1, m2, m3, m4)"
      and at: "startsWith l ''@@''"
      by (auto simp: isHunkHeader_def)
    have step: "chunkStep (cs, cur, a, b) l =
        (pushCurrent cs cur,
         Some \<lparr>oldStart = parseInt m1, oldLines = parseInt (orOne m2),
               newStart = parseInt m3, newLines = parseInt (orOne m4), lines = []\<rparr>,
         parseInt m1, parseInt m3)"
      using m at by simp
    have "map chunkSummary (finishChunks (foldl chunkStep (cs, cur, a, b) (l # ls))) =
        map chunkSummary (pushCurrent cs cur)
        @ [addBody \<lparr>oldStart = parseInt m1, oldLines = parseInt (orOne m2),
               newStart = parseInt m3, newLines = parseInt (orOne m4), lines = []\<rparr>
             (takeWhile (\<lambda>x. \<not> isHunkHeader x) ls)]
        @ map hunkSummary (hunks ls)"
      by (simp add: step Cons.IH del: chunkStep.simps)
    also have "\<dots> = map chunkSummary cs
        @ (case cur of None \<Rightarrow> []
           | Some c \<Rightarrow> [addBody c (takeWhile (\<lambda>x. \<not> isHunkHeader x) (l # ls))])
        @ map hunkSummary (hunks (l # ls))"
      using True m
      by (simp add: pushCurrent_def addBody_def chunkSummary_def
          hunkSummary_def declaredCounts_def oldSideText_def newSideText_def
          oldSideCount_def newSideCount_def split: option.splits)
    finally show ?thesis .
  next
    case False
    show ?thesis
    proof (cases cur)
      case None
      have "chunkStep (cs, cur, a, b) l = (cs, cur, a, b)"
        using None False by (auto simp: isHunkHeader_def split: option.splits)
      then show ?thesis using None False by (simp add: Cons.IH del: chunkStep.simps)
    next
      case (Some c)
      show ?thesis
      proof (cases "startsWith l ''@@'' \<or> \<not> isContentLine l")
        case True
        have "chunkStep (cs, cur, a, b) l = (cs, cur, a, b)"
          using Some False True by (auto simp: isHunkHeader_def split: option.splits)
        moreover have "\<not> startsWith l '' '' \<and> \<not> startsWith l ''+'' \<and> \<not> startsWith l ''-''"
          using True not_content_if_at by (auto simp: isContentLine_def)
        ultimately show ?thesis
          using Some False
          by (simp add: Cons.IH addBody_def oldSideText_def newSideText_def del: chunkStep.simps)
      next
        case F2: False
        then have cl: "isContentLine l" and nat: "\<not> startsWith l ''@@''" by auto
        have step: "chunkStep (cs, cur, a, b) l =
            (cs, Some (c\<lparr>lines := lines c @ [mkDiffLine l a b]\<rparr>),
             (if lineType l \<noteq> Added then jsInc a else a),
             (if lineType l \<noteq> Deleted then jsInc b else b))"
          using Some cl nat by simp
        have ty: "type (mkDiffLine l a b) = lineType l" by (simp add: mkDiffLine_def)
        have "map chunkSummary (finishChunks (foldl chunkStep (cs, cur, a, b) (l # ls))) =
            map chunkSummary cs
            @ [addBody (c\<lparr>lines := lines c @ [mkDiffLine l a b]\<rparr>)
                 (takeWhile (\<lambda>x. \<not> isHunkHeader x) ls)]
            @ map hunkSummary (hunks ls)"
          by (simp add: step Cons.IH del: chunkStep.simps)
        also have "addBody (c\<lparr>lines := lines c @ [mkDiffLine l a b]\<rparr>)
                 (takeWhile (\<lambda>x. \<not> isHunkHeader x) ls)
              = addBody c (takeWhile (\<lambda>x. \<not> isHunkHeader x) (l # ls))"
          using False cl
          by (auto simp add: addBody_def oldSideText_def newSideText_def
              oldSideCount_def newSideCount_def ty lineType_cases isContentLine_def
              startsWith_one)
        finally show ?thesis
          using Some False by simp
      qed
    qed
  qed
qed

lemma parseChunks_summary:
  "map chunkSummary (parseChunks ls) = map hunkSummary (hunks ls)"
  using summary_foldl [of "[]" None "Num 0" "Num 0" ls]
  by (simp add: parseChunks_def finishChunks_def)

lemma counts_agree_summary:
  "chunkCountsAgree c = (map_prod Num Num (snd (chunkSummary c)) = fst (chunkSummary c))"
  by (auto simp: chunkCountsAgree_def chunkSummary_def)

lemma wellFormed_summary:
  "hunkWellFormed h = (map_prod Num Num (snd (hunkSummary h)) = fst (hunkSummary h))"
  by (auto simp: hunkWellFormed_def hunkSummary_def)

section \<open>Properties of parseFileBlock and parseDiffOutput\<close>

lemma truthy_find:
  "(\<And>l. P l \<Longrightarrow> l \<noteq> []) \<Longrightarrow> truthy (find P ls) = list_ex P ls"
  by (induction ls) (auto simp: truthy_def)

lemma startsWith_nonempty: "startsWith l p \<Longrightarrow> p \<noteq> [] \<Longrightarrow> l \<noteq> []"
  by (auto simp: startsWith_def)

lemma includesStr_nonempty: "includesStr l p \<Longrightarrow> p \<noteq> [] \<Longrightarrow> l \<noteq> []"
  by (cases l) auto

lemma truthy_markers:
  "truthy (find (\<lambda>line. startsWith line ''new file mode'') ls) = newFileMarker ls"
  "truthy (find (\<lambda>line. startsWith line ''deleted file mode'') ls) = deletedFileMarker ls"
  "truthy (find (\<lambda>line. startsWith line ''rename from'') ls) = renameMarker ls"
  "truthy (find (\<lambda>line. includesStr line ''Binary files'') ls) = binaryMarker ls"
  unfolding newFileMarker_def deletedFileMarker_def renameMarker_def binaryMarker_def
  by (rule truthy_find; erule startsWith_nonempty includesStr_nonempty; simp)+

lemma parseFileBlock_empty: "parseFileBlock [] = Inr None"
  by (simp add: parseFileBlock_def)

lemma parseFileBlock_unrecognized:
  "fileMatch firstLine = None \<Longrightarrow> parseFileBlock (firstLine # rest) = Inr None"
  by (simp add: parseFileBlock_def)

lemma parseFileBlock_recognized:
  assumes "fileMatch firstLine = Some (oldName, newName)" and "ls = firstLine # rest"
  shows "parseFileBlock ls =
     Inr (Some
       (if binaryMarker ls then
          \<lparr>filename = (if blockStatus ls = StatusDeleted then oldName else newName),
           oldFilename = (if blockStatus ls = StatusRenamed then Some oldName else None),
           status = blockStatus ls, additions = 0, deletions = 0, chunks = [],
           isBinary = Some True,
           isImage = Some (isImageFile
                             (if blockStatus ls = StatusDeleted then oldName else newName))\<rparr>
        else
          \<lparr>filename = (if blockStatus ls = StatusDeleted then oldName else newName),
           oldFilename = (if blockStatus ls = StatusRenamed then Some oldName else None),
           status = blockStatus ls,
           additions = countType Added (parseChunks ls),
           deletions = countType Deleted (parseChunks ls),
           chunks = parseChunks ls,
           isBinary = None, isImage = None\<rparr>))"
  using assms
  by (simp add: parseFileBlock_def truthy_markers [of ls, unfolded assms(2)] blockStatus_def Let_def
      del: find.simps)

lemma parseFileBlock_total: "\<exists>r. parseFileBlock ls = Inr r"
proof (cases ls)
  case Nil
  then show ?thesis by (simp add: parseFileBlock_empty)
next
  case (Cons firstLine rest)
  show ?thesis
  proof (cases "fileMatch firstLine")
    case None
    then show ?thesis using Cons by (simp add: parseFileBlock_unrecognized)
  next
    case (Some p)
    then show ?thesis
      using Cons parseFileBlock_recognized [of firstLine "fst p" "snd p" ls rest] by simp
  qed
qed

lemma parseFileBlock_SomeD:
  assumes "parseFileBlock ls = Inr (Some f)"
  obtains firstLine rest oldName newName
  where "ls = firstLine # rest" and "fileMatch firstLine = Some (oldName, newName)"
proof (cases ls)
  case Nil
  then show ?thesis using assms by (simp add: parseFileBlock_empty)
next
  case (Cons firstLine rest)
  show ?thesis
  proof (cases "fileMatch firstLine")
    case None
    then show ?thesis using Cons assms by (simp add: parseFileBlock_unrecognized)
  next
    case (Some p)
    then show ?thesis using Cons that [of firstLine rest "fst p" "snd p"] by simp
  qed
qed

lemma parseBlocks_total: "\<exists>fs. parseBlocks bs fs0 = Inr fs"
proof (induction bs arbitrary: fs0)
  case Nil
  show ?case by simp
next
  case (Cons b bs)
  obtain r where r: "parseFileBlock (split_LF b) = Inr r"
    using parseFileBlock_total by blast
  show ?case using Cons.IH r by (cases r) simp_all
qed

lemma parseBlocks_origin:
  "parseBlocks bs fs0 = Inr fs \<Longrightarrow> f \<in> set fs \<Longrightarrow>
     f \<in> set fs0 \<or> (\<exists>b \<in> set bs. parseFileBlock (split_LF b) = Inr (Some f))"
proof (induction bs arbitrary: fs0)
  case Nil
  then show ?case by simp
next
  case (Cons b bs)
  obtain r where r: "parseFileBlock (split_LF b) = Inr r"
    using parseFileBlock_total by blast
  show ?case
  proof (cases r)
    case None
    then show ?thesis using Cons r by auto
  next
    case (Some g)
    then have "parseBlocks bs (fs0 @ [g]) = Inr fs" using Cons.prems r by simp
    from Cons.IH [OF this Cons.prems(2)] show ?thesis using r Some by auto
  qed
qed

lemma parseDiffOutput_origin:
  assumes "parseDiffOutput text = Inr fs" and "f \<in> set fs"
  obtains ls where "parseFileBlock ls = Inr (Some f)"
  using parseBlocks_origin [OF assms(1) [unfolded parseDiffOutput_def Let_def] assms(2)]
  by auto

lemma parseDiffOutput_total: "\<exists>fs. parseDiffOutput text = Inr fs"
  by (simp add: parseDiffOutput_def parseBlocks_total)

section \<open>The claims\<close>

lemma parseFileBlock_chunks:
  assumes "parseFileBlock ls = Inr (Some f)"
  shows "chunks f = (if binaryMarker ls then [] else parseChunks ls)"
proof -
  from assms obtain firstLine rest oldName newName
    where "ls = firstLine # rest" and "fileMatch firstLine = Some (oldName, newName)"
    by (rule parseFileBlock_SomeD)
  from parseFileBlock_recognized [OF this(2) this(1)] assms show ?thesis
    by (auto split: if_splits)
qed






text \<open>
  C2, as amended.  For every chunk that \<open>parseChunks\<close> returns, \<open>oldLines\<close> and
  \<open>newLines\<close> are the counts that its hunk header declares (1 where the header omits
  one), and the numbers of its context-or-deleted and context-or-added lines are the
  numbers of such content lines between that header and the next one in the text.  The
  counts of a chunk agree with its \<open>oldLines\<close> and \<open>newLines\<close> exactly when the header
  declares what follows it; when every hunk of a block does, every chunk of its file
  agrees.  The parser does not compare the two.
\<close>

theorem chunk_counts_follow_text:
  "map chunkSummary (parseChunks ls) = map hunkSummary (hunks ls) \<and>
   (\<forall>k < length (parseChunks ls).
      chunkCountsAgree (parseChunks ls ! k) = hunkWellFormed (hunks ls ! k)) \<and>
   (list_all hunkWellFormed (hunks ls) \<longrightarrow> list_all chunkCountsAgree (parseChunks ls)) \<and>
   (\<forall>f. parseFileBlock ls = Inr (Some f) \<and> list_all hunkWellFormed (hunks ls) \<longrightarrow>
      list_all chunkCountsAgree (chunks f))"
proof -
  have s: "map chunkSummary (parseChunks ls) = map hunkSummary (hunks ls)"
    by (rule parseChunks_summary)
  then have len: "length (parseChunks ls) = length (hunks ls)"
    by (metis length_map)
  have nth: "chunkCountsAgree (parseChunks ls ! k) = hunkWellFormed (hunks ls ! k)"
    if "k < length (parseChunks ls)" for k
  proof -
    have "chunkSummary (parseChunks ls ! k) = hunkSummary (hunks ls ! k)"
      using that len s by (metis nth_map)
    then show ?thesis by (simp add: counts_agree_summary wellFormed_summary)
  qed
  have all: "list_all chunkCountsAgree (parseChunks ls)" if "list_all hunkWellFormed (hunks ls)"
    using that nth len unfolding list_all_length by simp
  have fl: "list_all chunkCountsAgree (chunks f)"
    if "parseFileBlock ls = Inr (Some f)" and "list_all hunkWellFormed (hunks ls)" for f
    using parseFileBlock_chunks [OF that(1)] all [OF that(2)] by (simp split: if_splits)
  show ?thesis using s nth all fl by blast
qed

theorem chunk_counts_follow_text_witness:
  "list_all hunkWellFormed (hunks [''@@ -1,2 +1 @@'', '' a'', ''-b'']) \<and>
   list_all chunkCountsAgree (parseChunks [''@@ -1,2 +1 @@'', '' a'', ''-b''])"
proof -
  have h: "list_all hunkWellFormed (hunks [''@@ -1,2 +1 @@'', '' a'', ''-b''])"
    by code_simp
  show ?thesis
    using h chunk_counts_follow_text [of "[''@@ -1,2 +1 @@'', '' a'', ''-b'']"] by blast
qed

text \<open>
  C2 as stated fails: a header that declares one line on each side and is followed
  by no content line gives a chunk with \<open>oldLines = Num 1\<close>, \<open>newLines = Num 1\<close> and no lines.
\<close>

theorem chunk_counts_counterexample:
  "parseDiffOutput ''diff --git a/f b/f\<newline>@@ -5 +7 @@\<newline>'' =
     Inr [\<lparr>filename = ''f'', oldFilename = None, status = StatusModified,
           additions = 0, deletions = 0,
           chunks = [\<lparr>oldStart = Num 5, oldLines = Num 1, newStart = Num 7, newLines = Num 1, lines = []\<rparr>],
           isBinary = None, isImage = None\<rparr>] \<and>
   \<not> chunkCountsAgree \<lparr>oldStart = Num 5, oldLines = Num 1, newStart = Num 7, newLines = Num 1, lines = []\<rparr>"
  by code_simp




text \<open>
  C4.  For every recognized file block the status follows the precedence of the markers:
  a line that starts with \<open>new file mode\<close> gives \<open>added\<close>; otherwise a line that starts
  with \<open>deleted file mode\<close> gives \<open>deleted\<close>, with the filename the old (\<open>a/\<close>) path;
  otherwise a line that starts with \<open>rename from\<close> gives \<open>renamed\<close>; otherwise the
  status is \<open>modified\<close>.  In every case but \<open>deleted\<close> the filename is the new path.
\<close>

theorem status_precedence:
  "fileMatch firstLine = Some (oldName, newName) \<Longrightarrow> ls = firstLine # rest \<Longrightarrow>
   \<exists>f. parseFileBlock ls = Inr (Some f) \<and>
       status f =
         (if list_ex (\<lambda>line. startsWith line ''new file mode'') ls then StatusAdded
          else if list_ex (\<lambda>line. startsWith line ''deleted file mode'') ls then StatusDeleted
          else if list_ex (\<lambda>line. startsWith line ''rename from'') ls then StatusRenamed
          else StatusModified) \<and>
       filename f = (if status f = StatusDeleted then oldName else newName)"
  using parseFileBlock_recognized [of firstLine oldName newName ls rest]
  by (simp add: blockStatus_def newFileMarker_def deletedFileMarker_def renameMarker_def)

theorem status_precedence_witness:
  "\<exists>f. parseFileBlock [''a/old.txt b/new.txt'', ''rename from old.txt'', ''deleted file mode 100644'']
         = Inr (Some f) \<and>
       status f = StatusDeleted \<and> filename f = ''old.txt''"
proof -
  have m: "fileMatch ''a/old.txt b/new.txt'' = Some (''old.txt'', ''new.txt'')"
    by code_simp
  have n: "\<not> list_ex (\<lambda>line. startsWith line ''new file mode'')
      [''a/old.txt b/new.txt'', ''rename from old.txt'', ''deleted file mode 100644'']"
    by code_simp
  have d: "list_ex (\<lambda>line. startsWith line ''deleted file mode'')
      [''a/old.txt b/new.txt'', ''rename from old.txt'', ''deleted file mode 100644'']"
    by code_simp
  show ?thesis
    using status_precedence [OF m refl, of "[''rename from old.txt'', ''deleted file mode 100644'']"]
      n d
    by (auto simp del: list_ex_Cons_iff)
qed

lemma chunkStep_bad_header:
  "startsWith line ''@@'' \<Longrightarrow> matchHunkHeader line = None \<Longrightarrow> chunkStep s line = s"
  by (cases s) simp

lemma chunkStep_stray:
  "\<not> startsWith line ''@@'' \<Longrightarrow> chunkStep (cs, None, a, b) line = (cs, None, a, b)"
  by simp

text \<open>
  C9.  \<open>parseDiffOutput\<close> returns a list of files for every input text and never raises:
  the empty text gives no file; \<open>parseFileBlock\<close> returns for every list of lines; a
  block whose first line does not match the file header pattern gives no file and the
  loop goes on with the next block; a line that starts with \<open>@@\<close> and fails the header
  pattern leaves the state of \<open>parseChunks\<close> as it is, and so does any other line while
  no chunk is open.
\<close>

theorem parseDiffOutput_never_raises:
  "(\<exists>fs. parseDiffOutput text = Inr fs) \<and>
   parseDiffOutput [] = Inr [] \<and>
   (\<exists>r. parseFileBlock ls = Inr r) \<and>
   (fileMatch firstLine = None \<longrightarrow> parseFileBlock (firstLine # rest) = Inr None) \<and>
   (split_LF block = firstLine # rest \<and> fileMatch firstLine = None \<longrightarrow>
      parseBlocks (block # bs) fs0 = parseBlocks bs fs0) \<and>
   (startsWith line ''@@'' \<and> matchHunkHeader line = None \<longrightarrow> chunkStep s line = s) \<and>
   (\<not> startsWith line ''@@'' \<longrightarrow> chunkStep (cs, None, a, b) line = (cs, None, a, b))"
proof -
  have e: "parseDiffOutput [] = Inr []"
    by (simp add: parseDiffOutput_def trim_def)
  have sk: "parseBlocks (block # bs) fs0 = parseBlocks bs fs0"
    if "split_LF block = firstLine # rest" and "fileMatch firstLine = None"
    using that by (simp add: parseFileBlock_unrecognized)
  show ?thesis
    using parseDiffOutput_total [of "text"] e parseFileBlock_total [of ls]
      parseFileBlock_unrecognized [of firstLine rest] sk
      chunkStep_bad_header [of line s] chunkStep_stray [of line cs a b]
    by blast
qed

theorem parseDiffOutput_never_raises_witness:
  "parseFileBlock [''x y'', ''@@ bogus'', ''+stray''] = Inr None \<and>
   parseBlocks [''x y\<newline>@@ bogus\<newline>+stray''] [] = Inr [] \<and>
   chunkStep ([], None, Num 0, Num 0) ''@@ bogus'' = ([], None, Num 0, Num 0) \<and>
   chunkStep ([], None, Num 0, Num 0) ''+stray'' = ([], None, Num 0, Num 0)"
proof -
  have m: "fileMatch ''x y'' = None" by code_simp
  have s: "split_LF ''x y\<newline>@@ bogus\<newline>+stray'' = [''x y'', ''@@ bogus'', ''+stray'']"
    by code_simp
  have h: "startsWith ''@@ bogus'' ''@@'' \<and> matchHunkHeader ''@@ bogus'' = None"
    by code_simp
  have n: "\<not> startsWith ''+stray'' ''@@''" by code_simp
  show ?thesis
    using m s h n
      parseDiffOutput_never_raises [of "[]" "[]" "''x y''" "[''@@ bogus'', ''+stray'']"
        "''x y\<newline>@@ bogus\<newline>+stray''" "[]" "[]" "''@@ bogus''" "([], None, Num 0, Num 0)"]
      parseDiffOutput_never_raises [of "[]" "[]" "''x y''" "[]" "[]" "[]" "[]" "''+stray''"
        "([], None, Num 0, Num 0)" "[]" "Num 0" "Num 0"]
    by simp
qed

lemma optional_fields_by_marker:
  "(\<forall>f. parseFileBlock ls = Inr (Some f) \<longrightarrow>
      (\<not> binaryMarker ls \<longrightarrow> isBinary f = None \<and> isImage f = None) \<and>
      (binaryMarker ls \<longrightarrow> isBinary f = Some True \<and> isImage f = Some (isImageFile (filename f))) \<and>
      isBinary f \<noteq> Some False \<and>
      (isBinary f = Some True \<longleftrightarrow> isImage f \<noteq> None)) \<and>
   (\<forall>fs. parseDiffOutput text = Inr fs \<longrightarrow>
      (\<forall>f \<in> set fs. isBinary f \<noteq> Some False \<and> (isBinary f = Some True \<longleftrightarrow> isImage f \<noteq> None)))"
proof -
  have a: "(\<not> binaryMarker ls' \<longrightarrow> isBinary f = None \<and> isImage f = None) \<and>
      (binaryMarker ls' \<longrightarrow> isBinary f = Some True \<and> isImage f = Some (isImageFile (filename f))) \<and>
      isBinary f \<noteq> Some False \<and>
      (isBinary f = Some True \<longleftrightarrow> isImage f \<noteq> None)"
    if "parseFileBlock ls' = Inr (Some f)" for ls' f
  proof -
    from that obtain l r p q where "ls' = l # r" and "fileMatch l = Some (p, q)"
      by (rule parseFileBlock_SomeD)
    from parseFileBlock_recognized [OF this(2) this(1)] that show ?thesis
      by (auto split: if_splits)
  qed
  have b: "isBinary f \<noteq> Some False \<and> (isBinary f = Some True \<longleftrightarrow> isImage f \<noteq> None)"
    if "parseDiffOutput text = Inr fs" and "f \<in> set fs" for fs f
    using parseDiffOutput_origin [OF that] a by metis
  show ?thesis using a b by blast
qed

text \<open>
  C10.  The two optional fields are set on the binary branch of \<open>parseFileBlock\<close> only,
  and together.  The branch is taken for every block with a line that contains
  \<open>Binary files\<close>, though, and that is more than the binary files: the text diff of
  \<open>doc.md\<close> with the added line \<open>Binary files rock\<close> has a hunk and no line of the
  form \<open>Binary files ... differ\<close>, and the parser returns it with \<open>isBinary = true\<close>,
  \<open>isImage = false\<close> and no chunk, where \<open>parseChunks\<close> on the same lines finds the
  hunk with its two lines.
\<close>

theorem text_block_flagged_binary:
  "\<not> binaryFilesDiffer
       [''a/doc.md b/doc.md'', ''--- a/doc.md'', ''+++ b/doc.md'', ''@@ -1 +1,2 @@'',
        '' title'', ''+Binary files rock'', []] \<and>
   parseChunks
       [''a/doc.md b/doc.md'', ''--- a/doc.md'', ''+++ b/doc.md'', ''@@ -1 +1,2 @@'',
        '' title'', ''+Binary files rock'', []] =
     [\<lparr>oldStart = Num 1, oldLines = Num 1, newStart = Num 1, newLines = Num 2,
       lines = [\<lparr>type = Context, content = ''title'',
                 oldLineNumber = Some (Num 1), newLineNumber = Some (Num 1)\<rparr>,
                \<lparr>type = Added, content = ''Binary files rock'',
                 oldLineNumber = None, newLineNumber = Some (Num 2)\<rparr>]\<rparr>] \<and>
   split_LF ''a/doc.md b/doc.md\<newline>--- a/doc.md\<newline>+++ b/doc.md\<newline>@@ -1 +1,2 @@\<newline> title\<newline>+Binary files rock\<newline>'' =
       [''a/doc.md b/doc.md'', ''--- a/doc.md'', ''+++ b/doc.md'', ''@@ -1 +1,2 @@'',
        '' title'', ''+Binary files rock'', []] \<and>
   parseDiffOutput
     ''diff --git a/doc.md b/doc.md\<newline>--- a/doc.md\<newline>+++ b/doc.md\<newline>@@ -1 +1,2 @@\<newline> title\<newline>+Binary files rock\<newline>''
     = Inr [\<lparr>filename = ''doc.md'', oldFilename = None, status = StatusModified,
             additions = 0, deletions = 0, chunks = [],
             isBinary = Some True, isImage = Some False\<rparr>]"
  by code_simp

lemma stripPrefix_append: "stripPrefix p (p @ r) = Some r"
  by (simp add: stripPrefix_def startsWith_def)

lemma takeWhile_all_append:
  "list_all P a \<Longrightarrow> takeWhile P (a @ r) = a @ takeWhile P r"
  by (induction a) simp_all

lemma dropWhile_all_append:
  "list_all P a \<Longrightarrow> dropWhile P (a @ r) = dropWhile P r"
  by (induction a) simp_all

lemma digits1_append:
  assumes "digitString a" and "r = [] \<or> \<not> isDigit (hd r)"
  shows "digits1 (a @ r) = Some (a, r)"
proof -
  have all: "list_all isDigit a" and ne: "a \<noteq> []"
    using assms(1) by (simp_all add: digitString_def)
  have r: "takeWhile isDigit r = [] \<and> dropWhile isDigit r = r"
    using assms(2) by (cases r) simp_all
  have "takeWhile isDigit (a @ r) = a" and "dropWhile isDigit (a @ r) = r"
    using r by (simp_all add: takeWhile_all_append [OF all] dropWhile_all_append [OF all])
  then show ?thesis using ne by (simp add: digits1_def)
qed

lemma space_not_digit: "\<not> isDigit (CHR '' '')"
  by (simp add: isDigit_def)

lemma optCount_render:
  assumes "\<forall>n. m = Some n \<longrightarrow> digitString n"
  shows "optCount (renderCount m @ CHR '' '' # r) = (m, CHR '' '' # r)"
proof (cases m)
  case None
  then show ?thesis
    by (simp add: optCount_def renderCount_def stripPrefix_def startsWith_def)
next
  case (Some n)
  then have d: "digitString n" using assms by simp
  have "stripPrefix '','' ('','' @ n @ CHR '' '' # r) = Some (n @ CHR '' '' # r)"
    by (rule stripPrefix_append)
  moreover have "digits1 (n @ CHR '' '' # r) = Some (n, CHR '' '' # r)"
    using d by (rule digits1_append) (simp add: space_not_digit)
  ultimately show ?thesis using Some by (simp add: optCount_def renderCount_def)
qed

lemma matchHunkHeader_render:
  assumes "digitString a" and "digitString b"
    and "\<forall>n. oc = Some n \<longrightarrow> digitString n" and "\<forall>n. nc = Some n \<longrightarrow> digitString n"
  shows "matchHunkHeader (renderHeader a oc b nc tail) = Some (a, oc, b, nc)"
proof -
  let ?r5 = "renderCount nc @ '' @@'' @ tail"
  let ?r2 = "renderCount oc @ '' +'' @ b @ ?r5"
  have r5: "?r5 = [] \<or> \<not> isDigit (hd ?r5)"
    by (cases nc) (simp_all add: renderCount_def isDigit_def)
  have r2: "?r2 = [] \<or> \<not> isDigit (hd ?r2)"
    by (cases oc) (simp_all add: renderCount_def isDigit_def)
  have 1: "stripPrefix ''@@ -'' (renderHeader a oc b nc tail) = Some (a @ ?r2)"
    unfolding renderHeader_def by (rule stripPrefix_append)
  have 2: "digits1 (a @ ?r2) = Some (a, ?r2)"
    using assms(1) r2 by (rule digits1_append)
  have 3: "optCount ?r2 = (oc, '' +'' @ b @ ?r5)"
    using optCount_render [OF assms(3), of "''+'' @ b @ ?r5"] by simp
  have 4: "stripPrefix '' +'' ('' +'' @ b @ ?r5) = Some (b @ ?r5)"
    by (rule stripPrefix_append)
  have 5: "digits1 (b @ ?r5) = Some (b, ?r5)"
    using assms(2) r5 by (rule digits1_append)
  have 6: "optCount ?r5 = (nc, '' @@'' @ tail)"
    using optCount_render [OF assms(4), of "''@@'' @ tail"] by simp
  have 7: "stripPrefix '' @@'' ('' @@'' @ tail) = Some tail"
    by (rule stripPrefix_append)
  show ?thesis
    unfolding matchHunkHeader_def by (simp only: 1 2 3 4 5 6 7 option.case prod.case)
qed

lemma parseInt_orOne:
  "\<forall>n. m = Some n \<longrightarrow> digitString n \<Longrightarrow> parseInt (orOne m) = countOrOne m"
  by (cases m)
    (auto simp: orOne_def countOrOne_def digitString_def parseInt_def decimalValue_def
      isDigit_def digitValue_def roundDouble_exact)

text \<open>
  C7.  A hunk header that omits the count of a side gives that side the count 1: for all
  digit strings \<open>a\<close> and \<open>b\<close> and optional digit strings \<open>oc\<close> and \<open>nc\<close>, the header
  \<open>@@ -a[,oc] +b[,nc] @@\<close> (with any text after it) parses to one chunk with
  \<open>oldStart = a\<close>, \<open>newStart = b\<close>, \<open>oldLines\<close> the value of \<open>oc\<close> or 1 when it is absent,
  and \<open>newLines\<close> the value of \<open>nc\<close> or 1 when it is absent.  In particular
  \<open>@@ -5 +7 @@\<close> parses to \<open>oldStart = Num 5\<close>, \<open>oldLines = Num 1\<close>, \<open>newStart = Num 7\<close>, \<open>newLines = Num 1\<close>.
\<close>

theorem header_counts_default_to_one:
  "(digitString a \<and> digitString b \<and> (\<forall>n. oc = Some n \<longrightarrow> digitString n) \<and>
    (\<forall>n. nc = Some n \<longrightarrow> digitString n) \<longrightarrow>
      parseChunks [renderHeader a oc b nc tail] =
        [\<lparr>oldStart = parseInt a,
          oldLines = (case oc of None \<Rightarrow> Num 1 | Some n \<Rightarrow> parseInt n),
          newStart = parseInt b,
          newLines = (case nc of None \<Rightarrow> Num 1 | Some n \<Rightarrow> parseInt n),
          lines = []\<rparr>]) \<and>
   parseChunks [''@@ -5 +7 @@''] =
     [\<lparr>oldStart = Num 5, oldLines = Num 1, newStart = Num 7, newLines = Num 1, lines = []\<rparr>]"
proof -
  have g: "parseChunks [renderHeader a oc b nc tail] =
        [\<lparr>oldStart = parseInt a,
          oldLines = (case oc of None \<Rightarrow> Num 1 | Some n \<Rightarrow> parseInt n),
          newStart = parseInt b,
          newLines = (case nc of None \<Rightarrow> Num 1 | Some n \<Rightarrow> parseInt n),
          lines = []\<rparr>]"
    if h: "digitString a" "digitString b" "\<forall>n. oc = Some n \<longrightarrow> digitString n"
      "\<forall>n. nc = Some n \<longrightarrow> digitString n"
  proof -
    have sw: "startsWith (renderHeader a oc b nc tail) ''@@''"
      by (simp add: renderHeader_def startsWith_def)
    show ?thesis
      using sw matchHunkHeader_render [OF h, of tail] parseInt_orOne [OF h(3)] parseInt_orOne [OF h(4)]
      by (simp add: parseChunks_def pushCurrent_def countOrOne_def)
  qed
  have c: "parseChunks [''@@ -5 +7 @@''] =
     [\<lparr>oldStart = Num 5, oldLines = Num 1, newStart = Num 7, newLines = Num 1, lines = []\<rparr>]"
    by code_simp
  show ?thesis using g c by blast
qed

theorem header_counts_default_to_one_witness:
  "parseChunks [''@@ -12 +40,3 @@ int main()''] =
     [\<lparr>oldStart = Num 12, oldLines = Num 1, newStart = Num 40, newLines = Num 3, lines = []\<rparr>]"
proof -
  have d: "digitString ''12'' \<and> digitString ''40'' \<and>
      (\<forall>n. (None :: string option) = Some n \<longrightarrow> digitString n) \<and>
      (\<forall>n. Some ''3'' = Some n \<longrightarrow> digitString n)"
    by (simp add: digitString_def isDigit_def)
  have r: "renderHeader ''12'' None ''40'' (Some ''3'') '' int main()'' = ''@@ -12 +40,3 @@ int main()''"
    by (simp add: renderHeader_def renderCount_def)
  have v: "parseInt ''12'' = Num 12 \<and> parseInt ''40'' = Num 40 \<and> parseInt ''3'' = Num 3"
    by code_simp
  show ?thesis
    using d header_counts_default_to_one [of "''12''" "''40''" None "Some ''3''" "'' int main()''"]
    unfolding r by (simp add: v)
qed

lemma trim_special:
  "trim ''working'' \<noteq> []" "trim ''staged'' \<noteq> []" "trim ''.'' \<noteq> []"
  by (simp_all add: trim_def isWhiteSpace_def)

lemma validate_empty_target:
  "trim target = [] \<Longrightarrow>
     validateDiffArguments target c = \<lparr>valid = False, error = Some ''Target commit cannot be empty''\<rparr>"
  using trim_special by (auto simp: validateDiffArguments_def)

lemma trim_Nil: "trim [] = []"
  by (simp add: trim_def)

lemma validate_empty_base:
  "target \<notin> {''working'', ''staged'', ''.''} \<Longrightarrow> trim target \<noteq> [] \<Longrightarrow> trim base = [] \<Longrightarrow>
     validateDiffArguments target (Some base) =
       \<lparr>valid = False, error = Some ''Compare-with commit cannot be empty''\<rparr>"
  using trim_Nil by (auto simp: validateDiffArguments_def)

lemma validate_special:
  "target \<in> {''working'', ''staged'', ''.''} \<Longrightarrow>
     validateDiffArguments target c = \<lparr>valid = True, error = None\<rparr>"
  by (auto simp: validateDiffArguments_def)

lemma validate_ok:
  "trim target \<noteq> [] \<Longrightarrow> trim base \<noteq> [] \<Longrightarrow>
     validateDiffArguments target (Some base) = \<lparr>valid = True, error = None\<rparr>"
  using trim_Nil by (auto simp: validateDiffArguments_def)

text \<open>
  C5, as amended.  When the target is empty or white space only, \<open>parseDiff\<close> fails with
  the message \<open>Failed to parse diff: Target commit cannot be empty\<close>; when the target is
  not one of the tokens \<open>working\<close>, \<open>staged\<close> and \<open>.\<close>, is not blank, and the base is
  empty or white space only, it fails with
  \<open>Failed to parse diff: Compare-with commit cannot be empty\<close>.  In both cases no call
  to the repository or the file system has been made.  For a token target the
  validation accepts every base.
\<close>

theorem invalid_arguments_fail_first:
  "(trim target = [] \<longrightarrow>
      parseDiff w target base iw =
        ([], Inl (Error ''Failed to parse diff: Target commit cannot be empty''))) \<and>
   (target \<notin> {''working'', ''staged'', ''.''} \<and> trim target \<noteq> [] \<and> trim base = [] \<longrightarrow>
      parseDiff w target base iw =
        ([], Inl (Error ''Failed to parse diff: Compare-with commit cannot be empty''))) \<and>
   (target \<in> {''working'', ''staged'', ''.''} \<longrightarrow>
      valid (validateDiffArguments target (Some base)))"
proof -
  have a: "parseDiff w target base iw =
        ([], Inl (Error ''Failed to parse diff: Target commit cannot be empty''))"
    if "trim target = []"
    using validate_empty_target [OF that, of "Some base"]
    by (simp add: parseDiff_def io_catch_def io_throw_def errorMessage_def)
  have b: "parseDiff w target base iw =
        ([], Inl (Error ''Failed to parse diff: Compare-with commit cannot be empty''))"
    if "target \<notin> {''working'', ''staged'', ''.''}" "trim target \<noteq> []" "trim base = []"
    using validate_empty_base [OF that]
    by (simp add: parseDiff_def io_catch_def io_throw_def errorMessage_def)
  have c: "valid (validateDiffArguments target (Some base))"
    if "target \<in> {''working'', ''staged'', ''.''}"
    using validate_special [OF that, of "Some base"] by simp
  show ?thesis using a b c by blast
qed

theorem invalid_arguments_fail_first_witness:
  "parseDiff quietWorld ''   '' ''HEAD'' False =
     ([], Inl (Error ''Failed to parse diff: Target commit cannot be empty'')) \<and>
   parseDiff quietWorld ''main'' [] False =
     ([], Inl (Error ''Failed to parse diff: Compare-with commit cannot be empty''))"
proof -
  have t: "trim ''   '' = []" by code_simp
  have u: "''main'' \<notin> {''working'', ''staged'', ''.''} \<and> trim ''main'' \<noteq> [] \<and> trim [] = []"
    by (simp add: trim_def isWhiteSpace_def)
  note a = invalid_arguments_fail_first [of "''   ''" quietWorld "''HEAD''" False,
      THEN conjunct1, rule_format, OF t]
  note b = invalid_arguments_fail_first [of "''main''" quietWorld "[]" False,
      THEN conjunct2, THEN conjunct1, rule_format, OF u]
  show ?thesis by (rule conjI [OF a b])
qed

text \<open>
  C5 as stated fails: with the target \<open>working\<close> an empty base passes the
  validation, the diff of the working tree is read and the call succeeds.
\<close>

theorem invalid_arguments_counterexample:
  "parseDiff quietWorld ''working'' [] False =
     ([GitRaw [''diff'', ''--unified=3'']],
      Inr \<lparr>files = [], commit = ''Working Directory (unstaged changes)'', isEmpty = True\<rparr>)"
  by code_simp

lemma syntheticStep_text:
  "\<exists>t. syntheticStep w acc fname =
     (t, Inr (acc @ (case readableContent w fname of
                       None \<Rightarrow> []
                     | Some fileContent \<Rightarrow> syntheticBlock fname fileContent)))"
  by (cases "fs_stat_isFile w (path_resolve w fname)";
      cases "fs_readFile w (path_resolve w fname)")
    (auto simp: syntheticStep_def readableContent_def io_catch_def io_bind_def io_call_def
      io_return_def Let_def)

lemma syntheticLoop_text:
  "\<exists>t. syntheticLoop w fnames acc = (t, Inr (acc @ syntheticText w fnames))"
proof (induction fnames arbitrary: acc)
  case Nil
  show ?case by (simp add: io_return_def syntheticText_def)
next
  case (Cons fname rest)
  let ?d = "acc @ (case readableContent w fname of
                     None \<Rightarrow> []
                   | Some fileContent \<Rightarrow> syntheticBlock fname fileContent)"
  obtain t where s: "syntheticStep w acc fname = (t, Inr ?d)"
    using syntheticStep_text by blast
  obtain t' where l: "syntheticLoop w rest ?d = (t', Inr (?d @ syntheticText w rest))"
    using Cons.IH by blast
  show ?case by (simp add: s l syntheticText_def)
qed

lemma createSyntheticDiffForAllFiles_text:
  "\<exists>t. createSyntheticDiffForAllFiles w fnames = (t, Inr (syntheticText w fnames))"
  using syntheticLoop_text [of w fnames "[]"] by (simp add: createSyntheticDiffForAllFiles_def)

lemma syntheticLoop_returns: "\<exists>t d. syntheticLoop w fnames acc = (t, Inr d)"
  using syntheticLoop_text by blast

lemma getRawDiff_fallback:
  assumes "''--no-index'' \<in> set diffArgs" and "git_status w = Inr st"
  shows "\<exists>t. getRawDiff w diffArgs =
           (GitStatus # t, Inr (syntheticText w (map path (status_files st) @ not_added st)))"
proof (cases "map path (status_files st) @ not_added st = []")
  case True
  have ne: "length diffArgs \<noteq> 0" using assms(1) by auto
  have "syntheticText w [] = []" by (simp add: syntheticText_def)
  then show ?thesis
    using assms ne True
    by (simp add: getRawDiff_def io_bind_def io_call_def io_return_def Let_def)
next
  case False
  have ne: "length diffArgs \<noteq> 0" using assms(1) by auto
  obtain t where l: "createSyntheticDiffForAllFiles w (map path (status_files st) @ not_added st)
      = (t, Inr (syntheticText w (map path (status_files st) @ not_added st)))"
    using createSyntheticDiffForAllFiles_text by blast
  show ?thesis
    using assms ne False l
    by (auto simp add: getRawDiff_def io_bind_def io_call_def io_return_def Let_def)
qed

lemma getRawDiff_fallback_fails:
  assumes "''--no-index'' \<in> set diffArgs" and "git_status w = Inl e"
  shows "getRawDiff w diffArgs = ([GitStatus], Inl e)"
proof -
  have ne: "length diffArgs \<noteq> 0" using assms(1) by auto
  show ?thesis using assms ne by (simp add: getRawDiff_def io_bind_def io_call_def)
qed

lemma resolve_dot_unresolved:
  "git_revparse w [base] = Inl e \<Longrightarrow>
     resolveTarget w ''.'' base =
       ([RevParse [base]], Inr (''Working Directory (all files)'', [''--no-index'', ''/dev/null'']))"
  by (simp add: resolveTarget_def io_catch_def io_bind_def io_call_def io_return_def)

lemma resolve_staged_unresolved:
  "git_revparse w [base] = Inl e \<Longrightarrow>
     resolveTarget w ''staged'' base = ([RevParse [base]], Inl e)"
  by (simp add: resolveTarget_def io_bind_def io_call_def)

lemma resolve_commit_unresolved_target:
  "target \<notin> {''working'', ''staged'', ''.''} \<Longrightarrow> git_revparse w [target] = Inl e \<Longrightarrow>
     resolveTarget w target base = ([RevParse [target]], Inl e)"
  by (simp add: resolveTarget_def io_bind_def io_call_def)

lemma resolve_commit_unresolved_base:
  "target \<notin> {''working'', ''staged'', ''.''} \<Longrightarrow> git_revparse w [target] = Inr h \<Longrightarrow>
   git_revparse w [base] = Inl e \<Longrightarrow>
     resolveTarget w target base = ([RevParse [target], RevParse [base]], Inl e)"
  by (simp add: resolveTarget_def io_bind_def io_call_def)

lemma parseDiff_resolve_fails:
  assumes "validateDiffArguments target (Some base) = \<lparr>valid = True, error = None\<rparr>"
    and "resolveTarget w target base = (t, Inl e)"
  shows "parseDiff w target base iw = (t, Inl (Error (''Failed to parse diff: '' @ errorMessage e)))"
  using assms by (simp add: parseDiff_def io_catch_def io_bind_def io_throw_def)

lemma parseDiff_resolved:
  assumes "validateDiffArguments target (Some base) = \<lparr>valid = True, error = None\<rparr>"
    and "resolveTarget w target base = (t, Inr (label, args))"
  shows "parseDiff w target base iw =
     (case getRawDiff w (if iw then args @ [''--ignore-all-space''] else args) of
        (t', Inl e) \<Rightarrow> (t @ t', Inl (Error (''Failed to parse diff: '' @ errorMessage e)))
      | (t', Inr d) \<Rightarrow>
          (case parseDiffOutput d of
             Inl e \<Rightarrow> (t @ t', Inl (Error (''Failed to parse diff: '' @ errorMessage e)))
           | Inr fs \<Rightarrow> (t @ t', Inr \<lparr>files = fs, commit = label, isEmpty = (fs = [])\<rparr>)))"
  using assms
  by (simp add: parseDiff_def io_catch_def io_bind_def io_throw_def io_return_def Let_def
      split: prod.splits sum.splits)

text \<open>
  C6, as amended.  When the target is \<open>.\<close> and the base does not resolve, the failure of
  the resolution does not fail \<open>parseDiff\<close>: it goes on in the synthetic mode.  When the
  status query of that mode succeeds, the result is labelled
  \<open>Working Directory (all files)\<close> and its files are the parse of the synthetic text of
  the paths of the status (the listed files, then the untracked ones): one block for
  each path that is a readable regular file, all of its lines added.  When the status
  query fails, that failure comes out wrapped.  For the target \<open>staged\<close> and for a
  target that is none of the tokens, a reference that does not resolve fails
  \<open>parseDiff\<close> with the cause's message wrapped in \<open>Failed to parse diff: ...\<close>.
\<close>

theorem unresolved_reference:
  "(git_revparse w [base] = Inl e \<longrightarrow>
      (\<forall>st. git_status w = Inr st \<longrightarrow>
         (\<exists>t fs.
            parseDiffOutput (syntheticText w (map path (status_files st) @ not_added st))
              = Inr fs \<and>
            parseDiff w ''.'' base iw =
              (RevParse [base] # GitStatus # t,
               Inr \<lparr>files = fs, commit = ''Working Directory (all files)'',
                     isEmpty = (fs = [])\<rparr>))) \<and>
      (\<forall>e'. git_status w = Inl e' \<longrightarrow>
         parseDiff w ''.'' base iw =
           ([RevParse [base], GitStatus],
            Inl (Error (''Failed to parse diff: '' @ errorMessage e'))))) \<and>
   (git_revparse w [base] = Inl e \<longrightarrow>
      parseDiff w ''staged'' base iw =
        ([RevParse [base]], Inl (Error (''Failed to parse diff: '' @ errorMessage e)))) \<and>
   (target \<notin> {''working'', ''staged'', ''.''} \<and> trim target \<noteq> [] \<and> trim base \<noteq> [] \<and>
    git_revparse w [target] = Inl e \<longrightarrow>
      parseDiff w target base iw =
        ([RevParse [target]], Inl (Error (''Failed to parse diff: '' @ errorMessage e)))) \<and>
   (target \<notin> {''working'', ''staged'', ''.''} \<and> trim target \<noteq> [] \<and> trim base \<noteq> [] \<and>
    git_revparse w [target] = Inr h \<and> git_revparse w [base] = Inl e \<longrightarrow>
      parseDiff w target base iw =
        ([RevParse [target], RevParse [base]],
         Inl (Error (''Failed to parse diff: '' @ errorMessage e))))"
proof -
  have vdot: "validateDiffArguments ''.'' (Some base) = \<lparr>valid = True, error = None\<rparr>"
    by (rule validate_special) simp
  have vst: "validateDiffArguments ''staged'' (Some base) = \<lparr>valid = True, error = None\<rparr>"
    by (rule validate_special) simp
  let ?args = "if iw then [''--no-index'', ''/dev/null''] @ [''--ignore-all-space'']
               else [''--no-index'', ''/dev/null'']"
  have mem: "''--no-index'' \<in> set ?args" by simp
  have a: "\<exists>t fs.
            parseDiffOutput (syntheticText w (map path (status_files st) @ not_added st))
              = Inr fs \<and>
            parseDiff w ''.'' base iw =
              (RevParse [base] # GitStatus # t,
               Inr \<lparr>files = fs, commit = ''Working Directory (all files)'',
                     isEmpty = (fs = [])\<rparr>)"
    if r: "git_revparse w [base] = Inl e" and s: "git_status w = Inr st" for st
  proof -
    let ?d = "syntheticText w (map path (status_files st) @ not_added st)"
    obtain t where g: "getRawDiff w ?args = (GitStatus # t, Inr ?d)"
      using getRawDiff_fallback [OF mem s] by blast
    obtain fs where p: "parseDiffOutput ?d = Inr fs"
      using parseDiffOutput_total by blast
    have "parseDiff w ''.'' base iw =
              (RevParse [base] # GitStatus # t,
               Inr \<lparr>files = fs, commit = ''Working Directory (all files)'',
                     isEmpty = (fs = [])\<rparr>)"
      using parseDiff_resolved [OF vdot resolve_dot_unresolved [OF r], of iw] g p
      by simp
    with p show ?thesis by blast
  qed
  have b: "parseDiff w ''.'' base iw =
           ([RevParse [base], GitStatus],
            Inl (Error (''Failed to parse diff: '' @ errorMessage e')))"
    if r: "git_revparse w [base] = Inl e" and s: "git_status w = Inl e'" for e'
    using parseDiff_resolved [OF vdot resolve_dot_unresolved [OF r], of iw]
      getRawDiff_fallback_fails [OF mem s]
    by simp
  have c: "parseDiff w ''staged'' base iw =
        ([RevParse [base]], Inl (Error (''Failed to parse diff: '' @ errorMessage e)))"
    if r: "git_revparse w [base] = Inl e"
    by (rule parseDiff_resolve_fails [OF vst resolve_staged_unresolved [OF r]])
  have d: "parseDiff w target base iw =
        ([RevParse [target]], Inl (Error (''Failed to parse diff: '' @ errorMessage e)))"
    if "target \<notin> {''working'', ''staged'', ''.''}" "trim target \<noteq> []" "trim base \<noteq> []"
      "git_revparse w [target] = Inl e"
    by (rule parseDiff_resolve_fails [OF validate_ok [OF that(2,3)]
          resolve_commit_unresolved_target [OF that(1,4)]])
  have f: "parseDiff w target base iw =
        ([RevParse [target], RevParse [base]],
         Inl (Error (''Failed to parse diff: '' @ errorMessage e)))"
    if "target \<notin> {''working'', ''staged'', ''.''}" "trim target \<noteq> []" "trim base \<noteq> []"
      "git_revparse w [target] = Inr h" "git_revparse w [base] = Inl e"
    by (rule parseDiff_resolve_fails [OF validate_ok [OF that(2,3)]
          resolve_commit_unresolved_base [OF that(1,4,5)]])
  show ?thesis using a b c d f by blast
qed

theorem unresolved_reference_witness:
  "(\<exists>t. parseDiff noHistoryWorld ''.'' ''HEAD'' False =
      (RevParse [''HEAD''] # GitStatus # t,
       Inr \<lparr>files =
              [\<lparr>filename = ''a.txt'', oldFilename = None, status = StatusAdded,
                additions = 1, deletions = 0,
                chunks = [\<lparr>oldStart = Num 0, oldLines = Num 0, newStart = Num 1,
                           newLines = Num 1,
                           lines = [\<lparr>type = Added, content = ''one'',
                                     oldLineNumber = None, newLineNumber = Some (Num 1)\<rparr>]\<rparr>],
                isBinary = None, isImage = None\<rparr>,
               \<lparr>filename = ''b.txt'', oldFilename = None, status = StatusAdded,
                additions = 1, deletions = 0,
                chunks = [\<lparr>oldStart = Num 0, oldLines = Num 0, newStart = Num 1,
                           newLines = Num 1,
                           lines = [\<lparr>type = Added, content = ''two'',
                                     oldLineNumber = None, newLineNumber = Some (Num 1)\<rparr>]\<rparr>],
                isBinary = None, isImage = None\<rparr>],
             commit = ''Working Directory (all files)'', isEmpty = False\<rparr>)) \<and>
   parseDiff noHistoryWorld ''staged'' ''HEAD'' False =
     ([RevParse [''HEAD'']],
      Inl (Error (''Failed to parse diff: '' @ errorMessage (Error ''unknown revision'')))) \<and>
   parseDiff noHistoryWorld ''v1'' ''HEAD'' False =
     ([RevParse [''v1'']],
      Inl (Error (''Failed to parse diff: '' @ errorMessage (Error ''unknown revision''))))"
proof -
  let ?st = "\<lparr>status_files = [\<lparr>path = ''a.txt''\<rparr>, \<lparr>path = ''gone.txt''\<rparr>, \<lparr>path = ''b.txt''\<rparr>],
              not_added = []\<rparr>"
  let ?fs = "[\<lparr>filename = ''a.txt'', oldFilename = None, status = StatusAdded,
                additions = 1, deletions = 0,
                chunks = [\<lparr>oldStart = Num 0, oldLines = Num 0, newStart = Num 1,
                           newLines = Num 1,
                           lines = [\<lparr>type = Added, content = ''one'',
                                     oldLineNumber = None, newLineNumber = Some (Num 1)\<rparr>]\<rparr>],
                isBinary = None, isImage = None\<rparr>,
               \<lparr>filename = ''b.txt'', oldFilename = None, status = StatusAdded,
                additions = 1, deletions = 0,
                chunks = [\<lparr>oldStart = Num 0, oldLines = Num 0, newStart = Num 1,
                           newLines = Num 1,
                           lines = [\<lparr>type = Added, content = ''two'',
                                     oldLineNumber = None, newLineNumber = Some (Num 1)\<rparr>]\<rparr>],
                isBinary = None, isImage = None\<rparr>]"
  have r: "git_revparse noHistoryWorld [''HEAD''] = Inl (Error ''unknown revision'')"
    by (simp add: noHistoryWorld_def)
  have s: "git_status noHistoryWorld = Inr ?st"
    by (simp add: noHistoryWorld_def)
  have v: "''v1'' \<notin> {''working'', ''staged'', ''.''} \<and> trim ''v1'' \<noteq> [] \<and> trim ''HEAD'' \<noteq> [] \<and>
      git_revparse noHistoryWorld [''v1''] = Inl (Error ''unknown revision'')"
    by (simp add: noHistoryWorld_def trim_def isWhiteSpace_def)
  have p: "parseDiffOutput (syntheticText noHistoryWorld (map path (status_files ?st) @ not_added ?st))
      = Inr ?fs"
    by code_simp
  note t = unresolved_reference [of noHistoryWorld "''HEAD''" "Error ''unknown revision''" False "''v1''"]
  from t [THEN conjunct1, rule_format, OF r, THEN conjunct1, rule_format, OF s]
  obtain tr fs where q: "parseDiffOutput
        (syntheticText noHistoryWorld (map path (status_files ?st) @ not_added ?st)) = Inr fs"
    and d: "parseDiff noHistoryWorld ''.'' ''HEAD'' False =
      (RevParse [''HEAD''] # GitStatus # tr,
       Inr \<lparr>files = fs, commit = ''Working Directory (all files)'', isEmpty = (fs = [])\<rparr>)"
    by blast
  from p q have fs: "fs = ?fs" by simp
  have a: "\<exists>t. parseDiff noHistoryWorld ''.'' ''HEAD'' False =
      (RevParse [''HEAD''] # GitStatus # t,
       Inr \<lparr>files = ?fs, commit = ''Working Directory (all files)'', isEmpty = False\<rparr>)"
    using d unfolding fs by (intro exI [of _ tr]) simp
  note b = t [THEN conjunct2, THEN conjunct1, rule_format, OF r]
  note c = t [THEN conjunct2, THEN conjunct2, THEN conjunct1, rule_format, OF v]
  show ?thesis by (rule conjI [OF a conjI [OF b c]])
qed

text \<open>
  C6 as stated fails: outside a repository the base does not resolve, the status
  query of the synthetic mode fails as well, and \<open>parseDiff\<close> fails with the target \<open>.\<close>.
\<close>

theorem unresolved_reference_counterexample:
  "parseDiff noRepoWorld ''.'' ''HEAD'' False =
     ([RevParse [''HEAD''], GitStatus],
      Inl (Error ''Failed to parse diff: not a git repository''))"
  by code_simp

text \<open>
  C8.  The synthetic diff of the files of a repository without history: a path whose
  \<open>stat\<close> or read throws is skipped with a warning, and the loop never fails.  On the
  files \<open>a.txt\<close>, \<open>gone.txt\<close> (not readable) and \<open>b.txt\<close> the result has two files, both
  \<open>added\<close> with every line \<open>added\<close>.  The claim does not hold for every readable file,
  though: a file \<open>f\<close> whose text is \<open>x\<close>, a carriage return, and
  \<open>diff --git a/e b/e\<close> is one readable path, and the parse of the synthetic text has
  two files, the second one a file \<open>e\<close> with status \<open>modified\<close> that is in no list:
  the separator pattern matches after the carriage return inside the line of \<open>f\<close>.
\<close>

theorem synthetic_diff_carriage_return:
  "createSyntheticDiffForAllFiles crWorld [''f''] =
     ([FsStat ''/repo/f'', FsReadFile ''/repo/f''],
      Inr (''diff --git a/f b/f\<newline>new file mode 100644\<newline>index 0000000..fffffff\<newline>--- /dev/null\<newline>+++ b/f\<newline>@@ -0,0 +1,1 @@\<newline>+x''
           @ [CR] @ ''diff --git a/e b/e\<newline>'')) \<and>
   parseDiff crWorld ''.'' ''HEAD'' False =
     ([RevParse [''HEAD''], GitStatus, FsStat ''/repo/f'', FsReadFile ''/repo/f''],
      Inr \<lparr>files =
             [\<lparr>filename = ''f'', oldFilename = None, status = StatusAdded,
               additions = 1, deletions = 0,
               chunks = [\<lparr>oldStart = Num 0, oldLines = Num 0, newStart = Num 1, newLines = Num 1,
                          lines = [\<lparr>type = Added, content = ''x'' @ [CR],
                                    oldLineNumber = None, newLineNumber = Some (Num 1)\<rparr>]\<rparr>],
               isBinary = None, isImage = None\<rparr>,
              \<lparr>filename = ''e'', oldFilename = None, status = StatusModified,
               additions = 0, deletions = 0, chunks = [],
               isBinary = None, isImage = None\<rparr>],
            commit = ''Working Directory (all files)'', isEmpty = False\<rparr>)"
  by code_simp

lemma synthetic_diff_two_of_three:
  "parseDiff noHistoryWorld ''.'' ''HEAD'' False =
     ([RevParse [''HEAD''], GitStatus, FsStat ''/repo/a.txt'', FsReadFile ''/repo/a.txt'',
       FsStat ''/repo/gone.txt'', ConsoleWarn ''gone.txt'',
       FsStat ''/repo/b.txt'', FsReadFile ''/repo/b.txt''],
      Inr \<lparr>files =
             [\<lparr>filename = ''a.txt'', oldFilename = None, status = StatusAdded,
               additions = 1, deletions = 0,
               chunks = [\<lparr>oldStart = Num 0, oldLines = Num 0, newStart = Num 1, newLines = Num 1,
                          lines = [\<lparr>type = Added, content = ''one'',
                                    oldLineNumber = None, newLineNumber = Some (Num 1)\<rparr>]\<rparr>],
               isBinary = None, isImage = None\<rparr>,
              \<lparr>filename = ''b.txt'', oldFilename = None, status = StatusAdded,
               additions = 1, deletions = 0,
               chunks = [\<lparr>oldStart = Num 0, oldLines = Num 0, newStart = Num 1, newLines = Num 1,
                          lines = [\<lparr>type = Added, content = ''two'',
                                    oldLineNumber = None, newLineNumber = Some (Num 1)\<rparr>]\<rparr>],
               isBinary = None, isImage = None\<rparr>],
            commit = ''Working Directory (all files)'', isEmpty = False\<rparr>)"
  by code_simp

lemma synthetic_diff_no_files:
  "createSyntheticDiffForAllFiles w [] = ([], Inr []) \<and> parseDiffOutput [] = Inr []"
  by (simp add: createSyntheticDiffForAllFiles_def io_return_def parseDiffOutput_def trim_def)

end
